theory Spec2Isabelle
  imports Complex_Main "HOL-Library.Word"
begin

unbundle bit_operations_syntax

section \<open>Bus Pirate bitbang mode: the operations of BitBang.py\<close>

text \<open>
  The class \<open>BitBang\<close> talks to the device only through the methods it inherits from
  \<open>BBIO_base\<close>: \<open>write\<close>, \<open>response\<close>, \<open>timeout\<close>, \<open>port.flushInput\<close>,
  \<open>enter_bb\<close>, \<open>check_mode\<close>, \<open>recurse\<close> and \<open>recurse_end\<close>. The session is a
  record passed through every operation. It keeps, in order, every call made on the
  port (\<open>trace\<close>) and the results of the reads still to come (\<open>rx\<close>: one entry per
  read, the bytes the device delivers to it before the timeout, possibly none).

  The module is Python 3: its constructor calls \<open>super()\<close> without arguments, and
  \<open>adc\<close> shifts the elements of a raw response as integers. Python's floats are
  modelled by the reals they approximate, Python's integers by \<open>int\<close>, a \<open>bytes\<close>
  object by a list of 8-bit words and a \<open>str\<close> by a list of characters.
\<close>

subsection \<open>Values and exceptions\<close>

type_synonym byte = "8 word"

datatype pyval =
    PyNone
  | PyBool bool
  | PyInt int
  | PyFloat real
  | PyBytes "byte list"
  | PyStr string
  | PyObj string

datatype pyerror =
    NameError string
  | ValueError string
  | ProtocolError string
  | ModeError string
  | RetryExhausted
  | IndexError
  | KeyError
  | TypeError
  | ZeroDivisionError

text \<open>The number a value stands for in arithmetic and numeric comparison, if any.\<close>

fun py_number :: "pyval \<Rightarrow> real option" where
  "py_number (PyBool b) = Some (if b then 1 else 0)"
| "py_number (PyInt i) = Some (real_of_int i)"
| "py_number (PyFloat r) = Some r"
| "py_number _ = None"

text \<open>
  Python 3's \<open>==\<close>: numbers compare by value, \<open>bytes\<close> with \<open>bytes\<close> and \<open>str\<close> with
  \<open>str\<close> by content, and objects of unrelated types are never equal. In particular a
  \<open>bytes\<close> object is never equal to a \<open>str\<close>.
\<close>

fun py_eq :: "pyval \<Rightarrow> pyval \<Rightarrow> bool" where
  "py_eq PyNone PyNone = True"
| "py_eq (PyBytes a) (PyBytes b) = (a = b)"
| "py_eq (PyStr a) (PyStr b) = (a = b)"
| "py_eq (PyObj a) (PyObj b) = (a = b)"
| "py_eq a b = (case (py_number a, py_number b) of
                  (Some x, Some y) \<Rightarrow> x = y
                | _ \<Rightarrow> False)"

definition py_ne :: "pyval \<Rightarrow> pyval \<Rightarrow> bool" where
  "py_ne a b = (\<not> py_eq a b)"

text \<open>Truth value of an object, as \<open>if r:\<close> tests it.\<close>

fun py_truthy :: "pyval \<Rightarrow> bool" where
  "py_truthy PyNone = False"
| "py_truthy (PyBool b) = b"
| "py_truthy (PyInt i) = (i \<noteq> 0)"
| "py_truthy (PyFloat r) = (r \<noteq> 0)"
| "py_truthy (PyBytes bs) = (bs \<noteq> [])"
| "py_truthy (PyStr cs) = (cs \<noteq> [])"
| "py_truthy (PyObj n) = True"

text \<open>\<open>ord\<close>: defined on a string or bytes object of length one.\<close>

fun py_ord :: "pyval \<Rightarrow> pyerror + int" where
  "py_ord (PyStr [c]) = Inr (of_char c)"
| "py_ord (PyBytes [b]) = Inr (uint b)"
| "py_ord _ = Inl TypeError"

text \<open>\<open>int(x)\<close> on a float truncates towards zero.\<close>

definition py_int :: "real \<Rightarrow> int" where
  "py_int r = (if r < 0 then \<lceil>r\<rceil> else \<lfloor>r\<rfloor>)"

subsection \<open>The session and the inherited methods\<close>

datatype event =
    Write int
  | Timeout real
  | Response nat bool
  | FlushInput
  | EnterBB

record bbio =
  minDelay :: real
  mode :: string
  attempts :: nat
  max_attempts :: nat
  rx :: "byte list list"
  trace :: "event list"

text \<open>
  Modelled from the spec: \<open>write(byte)\<close> of the absent \<open>BBIO_base\<close>, "transmit one
  byte". The call is recorded with the integer it was given.
\<close>

definition write_byte :: "int \<Rightarrow> bbio \<Rightarrow> bbio" where
  "write_byte v s = s\<lparr>trace := trace s @ [Write v]\<rparr>"

text \<open>
  Modelled from the spec: \<open>timeout(seconds)\<close> of the absent \<open>BBIO_base\<close>, the wait
  before the next read.
\<close>

definition timeout :: "real \<Rightarrow> bbio \<Rightarrow> bbio" where
  "timeout d s = s\<lparr>trace := trace s @ [Timeout d]\<rparr>"

text \<open>The bytes the next read of \<open>n\<close> bytes returns: at most \<open>n\<close>, fewer on a timeout.\<close>

definition next_read :: "nat \<Rightarrow> bbio \<Rightarrow> byte list" where
  "next_read n s = (case rx s of [] \<Rightarrow> [] | c # _ \<Rightarrow> take n c)"

text \<open>
  Modelled from the spec: \<open>response(n, raw=false)\<close> of the absent \<open>BBIO_base\<close>, "block
  until n bytes are available or timeout; return them; a raw flag selects
  byte-vs-decoded return form". The raw form is the \<open>bytes\<close> object read, the decoded
  form a \<open>str\<close> with one character per byte, of that byte's value.
\<close>

definition response :: "nat \<Rightarrow> bool \<Rightarrow> bbio \<Rightarrow> pyval \<times> bbio" where
  "response n raw s =
     (let data = next_read n s;
          s' = s\<lparr>rx := tl (rx s), trace := trace s @ [Response n raw]\<rparr>
      in (if raw then PyBytes data else PyStr (map (\<lambda>b. char_of (uint b)) data), s'))"

text \<open>Modelled from the spec: \<open>flushInput()\<close>, "discard buffered unread input".\<close>

definition flushInput :: "bbio \<Rightarrow> bbio" where
  "flushInput s = s\<lparr>trace := trace s @ [FlushInput]\<rparr>"

text \<open>
  Modelled from the spec: \<open>enter_bb()\<close> of the absent \<open>BBIO_base\<close>, "re-perform the
  handshake into bitbang mode". The handshake's own traffic is not part of this
  class; \<open>''bb''\<close> stands for the name of the bitbang mode.
\<close>

definition enter_bb :: "bbio \<Rightarrow> bbio" where
  "enter_bb s = s\<lparr>mode := ''bb'', trace := trace s @ [EnterBB]\<rparr>"

text \<open>
  Modelled from the spec: \<open>check_mode(name)\<close> of the absent \<open>BBIO_base\<close>, "fail if
  current mode \<noteq> name", with a ModeError.
\<close>

definition check_mode :: "string \<Rightarrow> bbio \<Rightarrow> pyerror + bbio" where
  "check_mode name s = (if mode s = name then Inr s else Inl (ModeError name))"

text \<open>
  Modelled from the spec: the Retry Helper of the absent \<open>BBIO_base\<close>, "bounded
  re-invocation of an operation with a sentinel stop-recursing signal". The session
  counts the re-invocations since the last \<open>recurse_end\<close>; the bound, which the spec
  does not give, is the field \<open>max_attempts\<close>.
\<close>

definition recurse_end :: "bbio \<Rightarrow> bbio" where
  "recurse_end s = s\<lparr>attempts := 0\<rparr>"

definition recurse :: "(bbio \<Rightarrow> (pyerror + 'a) \<times> bbio) \<Rightarrow> bbio \<Rightarrow> (pyerror + 'a) \<times> bbio" where
  "recurse f s =
     (if attempts s < max_attempts s then f (s\<lparr>attempts := attempts s + 1\<rparr>)
      else (Inl RetryExhausted, s))"

text \<open>
  The function handed to \<open>recurse\<close> is only called below the bound, on the session
  with the counter incremented: the fact that makes the self-calls through
  \<open>recurse\<close> terminate.
\<close>

lemma recurse_cong [fundef_cong]:
  assumes "s = t"
    and "\<And>u. attempts t < max_attempts t \<Longrightarrow> u = t\<lparr>attempts := attempts t + 1\<rparr> \<Longrightarrow> f u = g u"
  shows "recurse f s = recurse g t"
  using assms by (simp add: recurse_def)

subsection \<open>ADC\<close>

text \<open>The expression \<open>(ret[0] << 8) + ret[1]\<close> on the object a read returned.\<close>

fun adc_raw :: "pyval \<Rightarrow> pyerror + int" where
  "adc_raw (PyBytes (b0 # b1 # _)) = Inr (push_bit 8 (uint b0) + uint b1)"
| "adc_raw (PyBytes _) = Inl IndexError"
| "adc_raw (PyStr []) = Inl IndexError"
| "adc_raw _ = Inl TypeError"

text \<open>\<open>voltage = (voltage * 6.6) / 1024\<close>\<close>

definition adc_scale :: "int \<Rightarrow> real" where
  "adc_scale voltage = (real_of_int voltage * (66 / 10)) / 1024"

definition adc :: "bbio \<Rightarrow> (pyerror + real) \<times> bbio" where
  "adc s =
     (let s1 = write_byte 0x14 s;
          s2 = timeout (minDelay s1) s1;
          (ret, s3) = response 2 True s2
      in case adc_raw ret of
           Inl e \<Rightarrow> (Inl e, s3)
         | Inr voltage \<Rightarrow> (Inr (adc_scale voltage), s3))"

definition start_getting_adc_voltages :: "bbio \<Rightarrow> bbio" where
  "start_getting_adc_voltages s = write_byte 0x15 s"

function get_next_adc_voltage :: "bbio \<Rightarrow> (pyerror + real) \<times> bbio" where
  "get_next_adc_voltage s =
     (let (ret, s1) = response 2 True s
      in case adc_raw ret of
           Inl e \<Rightarrow> (Inl e, s1)
         | Inr raw \<Rightarrow>
             (let voltage = adc_scale raw
              in if voltage < 10 then (Inr voltage, recurse_end s1)
                 else (let (pad, s2) = response 1 True s1;
                           s3 = flushInput s2
                       in recurse get_next_adc_voltage s3)))"
  by pat_completeness auto
termination
  by (relation "measure (\<lambda>s. max_attempts s - attempts s)")
     (auto simp: response_def flushInput_def Let_def)

text \<open>The loop \<open>for i in range(5)\<close> of \<open>stop_getting_adc_voltages\<close>, by iterations left.\<close>

fun probe :: "nat \<Rightarrow> bbio \<Rightarrow> bbio" where
  "probe 0 s = s"
| "probe (Suc k) s =
     (let s1 = write_byte 0x00 s;
          (r, s2) = response 1 True s1
      in if py_truthy r then s2 else probe k s2)"

definition stop_getting_adc_voltages :: "bbio \<Rightarrow> (pyerror + int) \<times> bbio" where
  "stop_getting_adc_voltages s =
     (case check_mode ''adc'' s of
        Inl e \<Rightarrow> (Inl e, s)
      | Inr s0 \<Rightarrow>
          (let s1 = flushInput s0;
               s2 = probe 5 s1;
               s3 = flushInput s2;
               s4 = enter_bb s3
           in (Inr 1, s4)))"

subsection \<open>Self-test\<close>

definition selftest :: "bool \<Rightarrow> bbio \<Rightarrow> (pyerror + int) \<times> bbio" where
  "selftest complete' s =
     (let s1 = (if complete' then write_byte 0x11 s else write_byte 0x10 s);
          s2 = timeout (minDelay s1 * 50) s1;
          (errors, s3) = response 1 False s2;
          s4 = write_byte 0xff s3;
          (ack, s5) = response 1 False s4
      in if py_ne ack (PyStr [CHR 0x01])
         then (Inl (ProtocolError ''Self test did not return to bitbang mode''), s5)
         else (case py_ord errors of
                 Inl e \<Rightarrow> (Inl e, s5)
               | Inr n \<Rightarrow> (Inr n, s5)))"

subsection \<open>PWM\<close>

definition setup_PWM :: "int \<Rightarrow> int \<Rightarrow> int \<Rightarrow> bbio \<Rightarrow> (pyerror + pyval) \<times> bbio" where
  "setup_PWM prescaler dutycycle period s =
     (let s1 = write_byte 0x12 s;
          s2 = write_byte prescaler s1;
          s3 = write_byte ((drop_bit 8 dutycycle) AND 0xFF) s2;
          s4 = write_byte (dutycycle AND 0xFF) s3;
          s5 = write_byte ((drop_bit 8 period) AND 0xFF) s4;
          s6 = write_byte (period AND 0xFF) s5;
          s7 = timeout (minDelay s6 * 10) s6;
          (ack, s8) = response 1 True s7
      in if py_ne ack (PyStr [CHR 0x01])
         then (Inl (ValueError ''Could not setup PWM mode''), s8)
         else (Inr PyNone, s8))"

definition disable_PWM :: "bbio \<Rightarrow> (pyerror + pyval) \<times> bbio" where
  "disable_PWM s =
     (let s1 = write_byte 0x13 s;
          s2 = timeout (minDelay s1 * 10) s1;
          (ack, s3) = response 1 True s2
      in if py_ne ack (PyStr [CHR 0x01])
         then (Inl (ValueError ''Could not disable PWM mode''), s3)
         else (Inr PyNone, s3))"

text \<open>
  The names BitBang.py binds at module level (its imports and its class) and the
  builtins it refers to. A name that is neither a parameter of a function nor
  assigned in its body is looked up among the module's names and then among the
  builtins. Python has no builtin called \<open>DutyCycle\<close>; the builtins this module
  does not refer to are left out.
\<close>

definition module_globals :: "(string \<times> pyval) list" where
  "module_globals =
     map (\<lambda>n. (n, PyObj n))
       [''serial'', ''BBIO_base'', ''BPError'', ''ProtocolError'', ''BitBang'']"

definition builtins :: "(string \<times> pyval) list" where
  "builtins =
     map (\<lambda>n. (n, PyObj n)) [''super'', ''range'', ''int'', ''ord'', ''ValueError'']"

definition load_global :: "string \<Rightarrow> pyerror + pyval" where
  "load_global name =
     (case map_of (module_globals @ builtins) name of
        Some v \<Rightarrow> Inr v
      | None \<Rightarrow> Inl (NameError name))"

definition Fosc :: real where
  "Fosc = 24000000"

definition Tcy :: real where
  "Tcy = 2 / Fosc"

definition PrescalerList :: "(nat \<times> int) list" where
  "PrescalerList = [(0, 1), (1, 8), (2, 64), (3, 256)]"

text \<open>
  The loop \<open>for n in range(4)\<close> of \<open>set_pwm_frequency\<close>, over the indices still to
  try: the values of \<open>Prescaler\<close>, \<open>OCR\<close> and \<open>PRy\<close> at the \<open>break\<close>, or the
  exception of the \<open>else\<close> branch.
\<close>

fun find_prescaler :: "real \<Rightarrow> nat list \<Rightarrow> pyerror + (int \<times> int \<times> int)" where
  "find_prescaler PwmPeriod [] = Inl (ValueError ''frequency requested is invalid'')"
| "find_prescaler PwmPeriod (n # ns) =
     (case map_of PrescalerList n of
        None \<Rightarrow> Inl KeyError
      | Some Prescaler \<Rightarrow>
          (let PRy = py_int (PwmPeriod * 1 / (Tcy * real_of_int Prescaler) - 1)
           in case load_global ''DutyCycle'' of
                Inl e \<Rightarrow> Inl e
              | Inr DutyCycle \<Rightarrow>
                  (case py_number DutyCycle of
                     None \<Rightarrow> Inl TypeError
                   | Some d \<Rightarrow>
                       (let OCR = py_int (real_of_int PRy * d)
                        in if PRy < 2 ^ 16 - 1 then Inr (Prescaler, OCR, PRy)
                           else find_prescaler PwmPeriod ns))))"

text \<open>
  \<open>set_pwm_frequency(self, frequency, dutycycle=.5)\<close>. Every name of the body but one
  is a parameter or is assigned before its use, and is the variable of that name
  below. \<open>DutyCycle\<close> is neither: its three uses (the bound check, the duty register
  in the search loop, the retry call) are lookups of a global name. The parameter
  \<open>dutycycle\<close> is never read.
\<close>

function set_pwm_frequency :: "pyval \<Rightarrow> pyval \<Rightarrow> bbio \<Rightarrow> (pyerror + int) \<times> bbio" where
  "set_pwm_frequency frequency dutycycle s =
     (case load_global ''DutyCycle'' of
        Inl e \<Rightarrow> (Inl e, s)
      | Inr DutyCycle \<Rightarrow>
          (case py_number DutyCycle of
             None \<Rightarrow> (Inl TypeError, s)
           | Some d \<Rightarrow>
               if d > 1 then (Inl (ValueError ''Duty cycle should be between 0 and 1''), s)
               else
                 (case py_number frequency of
                    None \<Rightarrow> (Inl TypeError, s)
                  | Some f \<Rightarrow>
                      if f = 0 then (Inl ZeroDivisionError, s)
                      else
                        (case find_prescaler (1 / f) [0, 1, 2, 3] of
                           Inl e \<Rightarrow> (Inl e, s)
                         | Inr (Prescaler, OCR, PRy) \<Rightarrow>
                             (case setup_PWM Prescaler OCR PRy s of
                                (Inl e, s') \<Rightarrow> (Inl e, s')
                              | (Inr ok, s') \<Rightarrow>
                                  if py_truthy ok then (Inr 1, recurse_end s')
                                  else
                                    (case load_global ''DutyCycle'' of
                                       Inl e \<Rightarrow> (Inl e, s')
                                     | Inr DutyCycle' \<Rightarrow>
                                         recurse (set_pwm_frequency frequency DutyCycle') s'))))))"
  by pat_completeness auto
termination
  by (relation "measure (\<lambda>(frequency, dutycycle, s). max_attempts s - attempts s)")
     (auto simp: setup_PWM_def write_byte_def timeout_def response_def Let_def split: if_splits)

section \<open>Properties\<close>

text \<open>A session for the examples: 115200 baud timing and a retry bound of 15.\<close>

abbreviation session :: "string \<Rightarrow> nat \<Rightarrow> byte list list \<Rightarrow> event list \<Rightarrow> bbio" where
  "session m a reads t \<equiv>
     \<lparr>minDelay = 1 / 115200, mode = m, attempts = a, max_attempts = 15, rx = reads, trace = t\<rparr>"

subsection \<open>Bytes, characters and bit operations\<close>

lemma and_255_eq_mod: "(x::int) AND 0xFF = x mod 256"
proof -
  have "(0xFF::int) = mask 8" by (simp add: mask_eq_exp_minus_1)
  then show ?thesis by (simp only: flip: take_bit_eq_mask) (simp add: take_bit_eq_mod)
qed

lemma high_byte: "0 \<le> (x::int) \<Longrightarrow> x < 65536 \<Longrightarrow> drop_bit 8 x AND 0xFF = x div 256"
  by (simp add: and_255_eq_mod drop_bit_eq_div)

lemma uint_byte_bounds: "0 \<le> uint (b::byte) \<and> uint b < 256"
  using uint_lt2p [of b] by simp

lemma byte_char_eq_1: "char_of (uint (b::byte)) = CHR 0x01 \<longleftrightarrow> b = 1"
proof -
  have "char_of (uint b) = CHR 0x01 \<longleftrightarrow> take_bit 8 (uint b) = (1::int)"
    by (simp add: char_of_eq_iff)
  also have "\<dots> \<longleftrightarrow> uint b = 1"
    using uint_byte_bounds [of b] by (simp add: take_bit_eq_mod)
  also have "\<dots> \<longleftrightarrow> b = 1"
    by (metis uint_1_eq word_uint_eq_iff)
  finally show ?thesis .
qed

lemma ord_byte_char: "of_char (char_of (uint (b::byte))) = uint b"
  using uint_byte_bounds [of b] by simp

text \<open>A raw response is a \<open>bytes\<close> object, and no \<open>bytes\<close> object equals a \<open>str\<close> literal.\<close>

lemma bytes_ne_str: "py_ne (PyBytes bs) (PyStr t)"
  by (simp add: py_ne_def)

text \<open>A decoded response differs from \<open>'\x01'\<close> exactly when the bytes read are not the byte 1.\<close>

lemma decoded_ack:
  "py_ne (PyStr (map (\<lambda>b. char_of (uint (b::byte))) bs)) (PyStr [CHR 0x01]) \<longleftrightarrow> bs \<noteq> [1]"
proof (cases bs)
  case Nil
  then show ?thesis by (simp add: py_ne_def)
next
  case (Cons b cs)
  then show ?thesis
    by (cases cs) (simp_all add: py_ne_def byte_char_eq_1)
qed

lemma next_read_trace: "next_read n (s\<lparr>trace := t\<rparr>) = next_read n s"
  by (simp add: next_read_def)

subsection \<open>Single ADC read\<close>

lemma adc_raw_pair: "adc_raw (PyBytes [b0, b1]) = Inr (uint b0 * 256 + uint b1)"
  by (simp add: push_bit_eq_mult)

text \<open>For a sample, the test \<open>voltage < 10\<close> is a test on the raw count.\<close>

lemma adc_scale_below_10: "adc_scale raw < 10 \<longleftrightarrow> raw \<le> 1551"
proof -
  have "adc_scale raw < 10 \<longleftrightarrow> real_of_int raw * 66 < 102400"
    by (simp add: adc_scale_def field_simps)
  also have "\<dots> \<longleftrightarrow> real_of_int (raw * 66) < real_of_int 102400"
    by simp
  also have "\<dots> \<longleftrightarrow> raw * 66 < 102400"
    by (simp only: of_int_less_iff)
  also have "\<dots> \<longleftrightarrow> raw \<le> 1551"
    by arith
  finally show ?thesis .
qed

text \<open>
  C6. When the device delivers the two bytes \<open>b0\<close>, \<open>b1\<close> to the read, \<open>adc\<close> writes
  the opcode 0x14, waits \<open>minDelay\<close>, makes one read of 2 raw bytes and returns
  \<open>(256 * b0 + b1) * 6.6 / 1024\<close>. It makes no other port call and leaves the retry
  counter alone.
\<close>

theorem adc_single_shot:
  assumes "next_read 2 s = [b0, b1]"
  shows "adc s =
     (Inr (real_of_int (uint b0 * 256 + uint b1) * (66 / 10) / 1024),
      s\<lparr>rx := tl (rx s),
        trace := trace s @ [Write 0x14, Timeout (minDelay s), Response 2 True]\<rparr>)"
proof -
  have "next_read 2 (timeout (minDelay (write_byte 0x14 s)) (write_byte 0x14 s)) = [b0, b1]"
    using assms by (simp add: next_read_def timeout_def write_byte_def)
  then show ?thesis
    by (simp add: adc_def response_def write_byte_def timeout_def push_bit_eq_mult adc_scale_def
        Let_def)
qed

theorem adc_single_shot_witness:
  "adc (session ''bb'' 0 [[0x01, 0x02]] []) =
     (Inr (4257 / 2560),
      session ''bb'' 0 [] [Write 0x14, Timeout (1 / 115200), Response 2 True])"
  using adc_single_shot [of "session ''bb'' 0 [[0x01, 0x02]] []" 1 2]
  by (simp add: next_read_def)

subsection \<open>ADC streaming\<close>

text \<open>
  C7. \<open>get_next_adc_voltage\<close> reads 2 raw bytes. When the decoded voltage is below
  10 it resets the retry counter and returns the voltage, having made that one read
  only. Otherwise it reads one more byte, flushes the input and calls itself again
  through the retry helper: with the counter incremented while the bound is not
  reached, and with the helper's failure once it is.
\<close>

theorem get_next_adc_voltage_policy:
  assumes "next_read 2 s = [b0, b1]"
  shows "(adc_scale (uint b0 * 256 + uint b1) < 10 \<longrightarrow>
            get_next_adc_voltage s =
              (Inr (adc_scale (uint b0 * 256 + uint b1)),
               s\<lparr>rx := tl (rx s), trace := trace s @ [Response 2 True], attempts := 0\<rparr>))
       \<and> (10 \<le> adc_scale (uint b0 * 256 + uint b1) \<longrightarrow>
            get_next_adc_voltage s =
              (if attempts s < max_attempts s
               then get_next_adc_voltage
                      (s\<lparr>rx := tl (tl (rx s)),
                         trace := trace s @ [Response 2 True, Response 1 True, FlushInput],
                         attempts := attempts s + 1\<rparr>)
               else (Inl RetryExhausted,
                     s\<lparr>rx := tl (tl (rx s)),
                       trace := trace s @ [Response 2 True, Response 1 True, FlushInput]\<rparr>)))"
proof -
  have raw: "adc_raw (PyBytes (next_read 2 s)) = Inr (uint b0 * 256 + uint b1)"
    by (simp only: assms adc_raw_pair)
  show ?thesis
    by (simp add: get_next_adc_voltage.simps [of s] response_def raw recurse_end_def
          recurse_def flushInput_def Let_def
        del: get_next_adc_voltage.simps)
qed

theorem get_next_adc_voltage_policy_witness:
  "get_next_adc_voltage (session ''bb'' 3 [[0x01, 0x02]] []) =
     (Inr (4257 / 2560), session ''bb'' 0 [] [Response 2 True])
   \<and> get_next_adc_voltage (session ''bb'' 0 [[0x10, 0x02], [0x05], [0x01, 0x02]] []) =
     (Inr (4257 / 2560),
      session ''bb'' 0 [] [Response 2 True, Response 1 True, FlushInput, Response 2 True])"
  using
    get_next_adc_voltage_policy [of "session ''bb'' 3 [[0x01, 0x02]] []" 1 2]
    get_next_adc_voltage_policy
      [of "session ''bb'' 0 [[0x10, 0x02], [0x05], [0x01, 0x02]] []" 16 2]
    get_next_adc_voltage_policy
      [of "session ''bb'' 1 [[0x01, 0x02]] [Response 2 True, Response 1 True, FlushInput]" 1 2]
  by (simp add: next_read_def adc_scale_def del: get_next_adc_voltage.simps)

subsection \<open>Leaving ADC streaming\<close>

text \<open>
  The probe loop started with \<open>k\<close> iterations left makes \<open>j \<le> k\<close> of them, each a
  write of 0x00 and a read of one raw byte. All reads but the last returned nothing,
  and when the loop stopped early the last read returned a byte.
\<close>

lemma probe_run:
  "\<exists>j\<le>k. probe k s =
            s\<lparr>rx := drop j (rx s),
              trace := trace s @ concat (replicate j [Write 0x00, Response 1 True])\<rparr>
         \<and> (\<forall>i<j - 1. i < length (rx s) \<longrightarrow> rx s ! i = [])
         \<and> (j < k \<longrightarrow> 0 < j \<and> j \<le> length (rx s) \<and> rx s ! (j - 1) \<noteq> [])"
proof (induction k arbitrary: s)
  case 0
  then show ?case by simp
next
  case (Suc k)
  let ?s2 = "s\<lparr>rx := tl (rx s), trace := trace s @ [Write 0x00, Response 1 True]\<rparr>"
  show ?case
  proof (cases "next_read 1 s = []")
    case False
    then have ne: "rx s \<noteq> []" "hd (rx s) \<noteq> []"
      by (auto simp: next_read_def split: list.splits)
    have "probe (Suc k) s = ?s2"
      using False by (simp add: write_byte_def response_def next_read_trace Let_def)
    moreover have "drop 1 (rx s) = tl (rx s)"
      by (simp add: drop_Suc)
    moreover have "rx s ! 0 \<noteq> []"
      using ne by (cases "rx s") simp_all
    ultimately show ?thesis
      using ne by (intro exI [of _ 1]) (simp add: Suc_le_eq)
  next
    case True
    then have first: "rx s = [] \<or> hd (rx s) = []"
      by (auto simp: next_read_def split: list.splits)
    have step: "probe (Suc k) s = probe k ?s2"
      using True by (simp add: write_byte_def response_def next_read_trace Let_def)
    from Suc.IH [of ?s2] obtain j where j: "j \<le> k"
      and run: "probe k ?s2 =
        ?s2\<lparr>rx := drop j (rx ?s2),
            trace := trace ?s2 @ concat (replicate j [Write 0x00, Response 1 True])\<rparr>"
      and empties: "\<forall>i<j - 1. i < length (rx ?s2) \<longrightarrow> rx ?s2 ! i = []"
      and stop: "j < k \<longrightarrow> 0 < j \<and> j \<le> length (rx ?s2) \<and> rx ?s2 ! (j - 1) \<noteq> []"
      by blast
    have a: "probe (Suc k) s =
        s\<lparr>rx := drop (Suc j) (rx s),
          trace := trace s @ concat (replicate (Suc j) [Write 0x00, Response 1 True])\<rparr>"
      by (simp only: step run) (simp add: drop_Suc)
    have b: "\<forall>i<Suc j - 1. i < length (rx s) \<longrightarrow> rx s ! i = []"
    proof (intro allI impI)
      fix i assume i: "i < Suc j - 1" "i < length (rx s)"
      show "rx s ! i = []"
      proof (cases i)
        case 0
        with first i show ?thesis by (cases "rx s") auto
      next
        case (Suc i')
        with i empties have "rx ?s2 ! i' = []" by (cases "rx s") auto
        with Suc i show ?thesis by (cases "rx s") auto
      qed
    qed
    have c: "Suc j < Suc k \<longrightarrow> 0 < Suc j \<and> Suc j \<le> length (rx s) \<and> rx s ! (Suc j - 1) \<noteq> []"
    proof
      assume "Suc j < Suc k"
      with stop have s: "0 < j" "j \<le> length (rx ?s2)" "rx ?s2 ! (j - 1) \<noteq> []" by auto
      then show "0 < Suc j \<and> Suc j \<le> length (rx s) \<and> rx s ! (Suc j - 1) \<noteq> []"
        by (cases "rx s"; cases j) auto
    qed
    from j a b c show ?thesis
      by (intro exI [of _ "Suc j"]) simp
  qed
qed

text \<open>
  C9. Outside the mode \<open>adc\<close>, \<open>stop_getting_adc_voltages\<close> fails with a ModeError in
  the session it was called in: no port call has been made. In the mode \<open>adc\<close> it
  flushes the input, makes \<open>k\<close> probes with \<open>1 \<le> k \<le> 5\<close> (a write of 0x00 and a
  read of one byte each), flushes again, re-enters bitbang mode and returns 1. The
  reads before the last probe returned nothing, and when fewer than 5 probes were
  made the last read returned a byte.
\<close>

theorem stop_getting_adc_voltages_spec:
  "(mode s \<noteq> ''adc'' \<longrightarrow> stop_getting_adc_voltages s = (Inl (ModeError ''adc''), s))
   \<and> (mode s = ''adc'' \<longrightarrow>
        (\<exists>k. 1 \<le> k \<and> k \<le> 5
           \<and> stop_getting_adc_voltages s =
               (Inr 1,
                s\<lparr>mode := ''bb'', rx := drop k (rx s),
                  trace := trace s @ [FlushInput]
                           @ concat (replicate k [Write 0x00, Response 1 True])
                           @ [FlushInput, EnterBB]\<rparr>)
           \<and> (\<forall>i<k - 1. i < length (rx s) \<longrightarrow> rx s ! i = [])
           \<and> (k < 5 \<longrightarrow> k \<le> length (rx s) \<and> rx s ! (k - 1) \<noteq> [])))"
proof (intro conjI impI)
  assume "mode s \<noteq> ''adc''"
  then show "stop_getting_adc_voltages s = (Inl (ModeError ''adc''), s)"
    by (simp add: stop_getting_adc_voltages_def check_mode_def)
next
  assume adc: "mode s = ''adc''"
  let ?s1 = "flushInput s"
  from probe_run [of 5 ?s1] obtain j where j: "j \<le> 5"
    and run: "probe 5 ?s1 =
        ?s1\<lparr>rx := drop j (rx ?s1),
            trace := trace ?s1 @ concat (replicate j [Write 0x00, Response 1 True])\<rparr>"
    and empties: "\<forall>i<j - 1. i < length (rx ?s1) \<longrightarrow> rx ?s1 ! i = []"
    and stop: "j < 5 \<longrightarrow> 0 < j \<and> j \<le> length (rx ?s1) \<and> rx ?s1 ! (j - 1) \<noteq> []"
    by blast
  have rx1: "rx ?s1 = rx s"
    by (simp add: flushInput_def)
  have pos: "1 \<le> j"
    using stop by (cases "j < 5") auto
  have res: "stop_getting_adc_voltages s =
      (Inr 1,
       s\<lparr>mode := ''bb'', rx := drop j (rx s),
         trace := trace s @ [FlushInput]
                  @ concat (replicate j [Write 0x00, Response 1 True])
                  @ [FlushInput, EnterBB]\<rparr>)"
  proof -
    have "check_mode ''adc'' s = Inr s"
      using adc by (simp add: check_mode_def)
    then have "stop_getting_adc_voltages s = (Inr 1, enter_bb (flushInput (probe 5 ?s1)))"
      by (simp add: stop_getting_adc_voltages_def Let_def)
    then show ?thesis
      by (simp only: run) (simp add: flushInput_def enter_bb_def)
  qed
  show "\<exists>k. 1 \<le> k \<and> k \<le> 5
           \<and> stop_getting_adc_voltages s =
               (Inr 1,
                s\<lparr>mode := ''bb'', rx := drop k (rx s),
                  trace := trace s @ [FlushInput]
                           @ concat (replicate k [Write 0x00, Response 1 True])
                           @ [FlushInput, EnterBB]\<rparr>)
           \<and> (\<forall>i<k - 1. i < length (rx s) \<longrightarrow> rx s ! i = [])
           \<and> (k < 5 \<longrightarrow> k \<le> length (rx s) \<and> rx s ! (k - 1) \<noteq> [])"
    using j pos res empties stop unfolding rx1 by (intro exI [of _ j]) simp
qed

text \<open>
  Called in bitbang mode, and called in \<open>adc\<close> mode where the first probe times out
  and the second is answered.
\<close>

theorem stop_getting_adc_voltages_spec_witness:
  "stop_getting_adc_voltages (session ''bb'' 0 [[], [0x07]] []) =
     (Inl (ModeError ''adc''), session ''bb'' 0 [[], [0x07]] [])
   \<and> stop_getting_adc_voltages (session ''adc'' 0 [[], [0x07], [0x08]] []) =
     (Inr 1, session ''bb'' 0 [[0x08]]
        [FlushInput, Write 0x00, Response 1 True, Write 0x00, Response 1 True,
         FlushInput, EnterBB])"
proof -
  let ?s = "session ''adc'' 0 [[], [0x07], [0x08]] []"
  from stop_getting_adc_voltages_spec [of ?s] obtain k where k: "1 \<le> k" "k \<le> 5"
    and res: "stop_getting_adc_voltages ?s =
               (Inr 1,
                ?s\<lparr>mode := ''bb'', rx := drop k (rx ?s),
                  trace := trace ?s @ [FlushInput]
                           @ concat (replicate k [Write 0x00, Response 1 True])
                           @ [FlushInput, EnterBB]\<rparr>)"
    and empties: "\<forall>i<k - 1. i < length (rx ?s) \<longrightarrow> rx ?s ! i = []"
    and stop: "k < 5 \<longrightarrow> k \<le> length (rx ?s) \<and> rx ?s ! (k - 1) \<noteq> []"
    by auto
  have "k = 2"
  proof (rule ccontr)
    assume "k \<noteq> 2"
    then consider "k = 1" | "k = 3" | "k = 4" | "k = 5" using k by arith
    then show False
    proof cases
      case 1 with stop show False by simp
    next
      case 2 with empties show False by (auto dest: spec [of _ 1])
    next
      case 3 with stop show False by simp
    next
      case 4 with empties show False by (auto dest: spec [of _ 1])
    qed
  qed
  with res have "stop_getting_adc_voltages ?s =
     (Inr 1, session ''bb'' 0 [[0x08]]
        [FlushInput, Write 0x00, Response 1 True, Write 0x00, Response 1 True,
         FlushInput, EnterBB])"
    by (simp add: numeral_2_eq_2)
  moreover have "stop_getting_adc_voltages (session ''bb'' 0 [[], [0x07]] []) =
     (Inl (ModeError ''adc''), session ''bb'' 0 [[], [0x07]] [])"
    using stop_getting_adc_voltages_spec [of "session ''bb'' 0 [[], [0x07]] []"] by simp
  ultimately show ?thesis by simp
qed

subsection \<open>Self-test\<close>

text \<open>
  C8. When the first read delivers the byte \<open>e\<close>, \<open>selftest\<close> writes 0x11 for a
  complete test and 0x10 otherwise, waits \<open>minDelay * 50\<close>, reads one byte, writes
  0xFF and reads one more byte. When that second read is not the single byte 0x01
  it raises ProtocolError; otherwise it returns \<open>e\<close> as an integer, which lies in
  0..255.
\<close>

theorem selftest_protocol:
  assumes "rx s = [e] # a # rest"
  shows "selftest c s =
     (if take 1 a = [0x01] then Inr (uint e)
      else Inl (ProtocolError ''Self test did not return to bitbang mode''),
      s\<lparr>rx := rest,
        trace := trace s @
          [Write (if c then 0x11 else 0x10), Timeout (minDelay s * 50), Response 1 False,
           Write 0xFF, Response 1 False]\<rparr>)
     \<and> 0 \<le> uint e \<and> uint e < 256"
  using assms uint_byte_bounds [of e]
  by (simp add: selftest_def response_def next_read_def write_byte_def timeout_def Let_def
      decoded_ack ord_byte_char)

theorem selftest_protocol_witness:
  "selftest False (session ''bb'' 0 [[0x03], [0x01]] []) =
     (Inr 3,
      session ''bb'' 0 []
        [Write 0x10, Timeout (1 / 2304), Response 1 False, Write 0xFF, Response 1 False])
   \<and> selftest True (session ''bb'' 0 [[0x03], [0x02]] []) =
     (Inl (ProtocolError ''Self test did not return to bitbang mode''),
      session ''bb'' 0 []
        [Write 0x11, Timeout (1 / 2304), Response 1 False, Write 0xFF, Response 1 False])"
  using
    selftest_protocol [of "session ''bb'' 0 [[0x03], [0x01]] []" 3 "[0x01]" "[]" False]
    selftest_protocol [of "session ''bb'' 0 [[0x03], [0x02]] []" 3 "[0x02]" "[]" True]
  by simp

subsection \<open>PWM setup\<close>

lemma setup_PWM_run:
  "setup_PWM p d per s =
     (Inl (ValueError ''Could not setup PWM mode''),
      s\<lparr>rx := tl (rx s),
        trace := trace s @
          [Write 0x12, Write p, Write (drop_bit 8 d AND 0xFF), Write (d AND 0xFF),
           Write (drop_bit 8 per AND 0xFF), Write (per AND 0xFF),
           Timeout (minDelay s * 10), Response 1 True]\<rparr>)"
  by (simp add: setup_PWM_def write_byte_def timeout_def response_def bytes_ne_str Let_def)

text \<open>
  C4. For a prescaler byte and 16-bit duty and period values, \<open>setup_PWM\<close> makes
  exactly six writes, in this order and before its read: the opcode 0x12, the
  prescaler, the high and the low byte of the duty value, the high and the low byte
  of the period value. Each of the six values is a byte.
\<close>

theorem setup_PWM_payload:
  assumes "0 \<le> prescaler \<and> prescaler < 256"
    and "0 \<le> duty \<and> duty < 65536"
    and "0 \<le> period \<and> period < 65536"
  shows "trace (snd (setup_PWM prescaler duty period s)) =
           trace s @
           map Write [0x12, prescaler, duty div 256, duty mod 256, period div 256, period mod 256] @
           [Timeout (minDelay s * 10), Response 1 True]
         \<and> list_all (\<lambda>v. 0 \<le> v \<and> v < 256)
              [0x12, prescaler, duty div 256, duty mod 256, period div 256, period mod 256]"
proof -
  have hi: "drop_bit 8 duty AND 0xFF = duty div 256" "drop_bit 8 period AND 0xFF = period div 256"
    using assms by (simp_all only: high_byte)
  have lo: "duty AND 0xFF = duty mod 256" "period AND 0xFF = period mod 256"
    by (simp_all only: and_255_eq_mod)
  have rng: "0 \<le> duty div 256 \<and> duty div 256 < 256" "0 \<le> period div 256 \<and> period div 256 < 256"
    using assms by auto
  show ?thesis
    using assms rng by (simp add: setup_PWM_run hi lo)
qed

text \<open>The example of the spec: prescaler 0, duty 500, period 1000.\<close>

theorem setup_PWM_payload_witness:
  "trace (snd (setup_PWM 0 500 1000 (session ''bb'' 0 [[0x01]] []))) =
     map Write [0x12, 0x00, 0x01, 0xF4, 0x03, 0xE8] @ [Timeout (1 / 11520), Response 1 True]"
  using setup_PWM_payload [of 0 500 1000 "session ''bb'' 0 [[0x01]] []"]
  by simp

text \<open>
  C3, at the input where the code departs from it: the device answers the six
  writes with the byte 0x01. \<open>setup_PWM\<close> compares the raw response, a \<open>bytes\<close>
  object, with the \<open>str\<close> literal \<open>'\x01'\<close>; the two are never equal, and the call
  raises ValueError "Could not setup PWM mode" although the device acknowledged. It
  returns no value that tells success.
\<close>

theorem setup_PWM_acknowledged_raises:
  "setup_PWM prescaler duty period (s\<lparr>rx := [0x01] # rest\<rparr>) =
     (Inl (ValueError ''Could not setup PWM mode''),
      s\<lparr>rx := rest,
        trace := trace s @
          [Write 0x12, Write prescaler, Write (drop_bit 8 duty AND 0xFF), Write (duty AND 0xFF),
           Write (drop_bit 8 period AND 0xFF), Write (period AND 0xFF),
           Timeout (minDelay s * 10), Response 1 True]\<rparr>)"
  by (simp add: setup_PWM_run)

subsection \<open>PWM disable\<close>

text \<open>
  C10, at the input where the code departs from it: the device answers the opcode
  0x13 with the byte 0x01. \<open>disable_PWM\<close> compares the raw response, a \<open>bytes\<close>
  object, with the \<open>str\<close> literal \<open>'\x01'\<close>; the two are never equal, and the call
  raises ValueError "Could not disable PWM mode" although the device acknowledged.
\<close>

theorem disable_PWM_acknowledged_raises:
  "disable_PWM (s\<lparr>rx := [0x01] # rest\<rparr>) =
     (Inl (ValueError ''Could not disable PWM mode''),
      s\<lparr>rx := rest,
        trace := trace s @ [Write 0x13, Timeout (minDelay s * 10), Response 1 True]\<rparr>)"
  by (simp add: disable_PWM_def write_byte_def timeout_def response_def bytes_ne_str Let_def)

subsection \<open>PWM frequency search\<close>

lemma load_DutyCycle: "load_global ''DutyCycle'' = Inl (NameError ''DutyCycle'')"
  by (simp add: load_global_def module_globals_def builtins_def)

lemma set_pwm_frequency_raises:
  "set_pwm_frequency frequency dutycycle s = (Inl (NameError ''DutyCycle''), s)"
  by (simp add: load_DutyCycle)

text \<open>
  C2. Whatever its arguments, \<open>set_pwm_frequency\<close> fails with a NameError for
  \<open>DutyCycle\<close>, in the session it was called in: nothing has been written to or read
  from the port, and the call never returns a value. The name is bound neither in
  the function nor in the module, so the bound check raises; the computation of the
  duty register in the search loop refers to the same unbound name.
\<close>

theorem set_pwm_frequency_undefined_name:
  "set_pwm_frequency frequency dutycycle s = (Inl (NameError ''DutyCycle''), s)
   \<and> trace (snd (set_pwm_frequency frequency dutycycle s)) = trace s
   \<and> load_global ''DutyCycle'' = Inl (NameError ''DutyCycle'')
   \<and> find_prescaler PwmPeriod [0, 1, 2, 3] = Inl (NameError ''DutyCycle'')"
  by (simp add: set_pwm_frequency_raises load_DutyCycle PrescalerList_def)

text \<open>
  C1, at the example of the spec: 1000 Hz with duty cycle 0.5. The call selects no
  prescaler and never reaches \<open>setup_PWM\<close>; it raises the NameError and leaves the
  session as it was.
\<close>

theorem set_pwm_frequency_1000Hz_raises:
  "set_pwm_frequency (PyInt 1000) (PyFloat (1 / 2)) s = (Inl (NameError ''DutyCycle''), s)"
  by (rule set_pwm_frequency_raises)

text \<open>
  C5, at a duty cycle above 1 and at a negative one: the error raised is the
  NameError, not the ValueError "Duty cycle should be between 0 and 1" of the
  bound check.
\<close>

theorem set_pwm_frequency_duty_out_of_range:
  "set_pwm_frequency (PyInt 1000) (PyInt 2) s = (Inl (NameError ''DutyCycle''), s)
   \<and> set_pwm_frequency (PyInt 1000) (PyFloat (- (1 / 2))) s = (Inl (NameError ''DutyCycle''), s)"
  by (simp only: set_pwm_frequency_raises)

end
